theory Spec2Isabelle
  imports Complex_Main
begin

section \<open>The product catalogue of the online store (app/routers/products.py)\<close>

text \<open>
  The handlers of \<^verbatim>\<open>app/routers/products.py\<close> are embedded as functions on an
  explicit database session. Python integers are \<open>int\<close>; prices (a decimal column,
  compared with the \<^verbatim>\<open>float\<close> query parameters only by order) are \<open>rat\<close>; a
  parameter of type \<^verbatim>\<open>T | None\<close> is a \<open>T option\<close>. A raised exception is the
  \<open>Inl\<close> branch of the result.
\<close>

subsection \<open>Data model\<close>

text \<open>
  Modelled from the spec: the schema \<^verbatim>\<open>ProductCreate\<close> (app/schemas.py is not
  part of the sources); its fields are those of the spec's Product that a client
  supplies.
\<close>

record ProductCreate =
  name :: string
  description :: string
  price :: rat
  stock :: int
  category_id :: int

text \<open>
  Modelled from the spec: the table \<^verbatim>\<open>ProductModel\<close> (app/models/products.py is
  not part of the sources): the payload's columns, the primary key \<^verbatim>\<open>id\<close>
  (here \<open>prod_id\<close>), the owner and the soft-delete flag.
\<close>

record Product = ProductCreate +
  prod_id :: int
  seller_id :: int
  is_active :: bool

text \<open>
  Modelled from the spec: the table \<^verbatim>\<open>CategoryModel\<close> (identity, name, is_active
  flag); the columns carry the prefix \<open>cat\<close> to keep them apart from the product's.
\<close>

record Category =
  cat_id :: int
  cat_name :: string
  cat_is_active :: bool

text \<open>Of \<^verbatim>\<open>UserModel\<close> the handlers read \<^verbatim>\<open>current_user.id\<close> only.\<close>

record User =
  user_id :: int

text \<open>
  The exceptions a handler can end with: the \<^verbatim>\<open>HTTPException\<close>s it raises itself,
  SQLAlchemy's \<^verbatim>\<open>ArgumentError\<close> (an ordering comparison of a column with
  \<^verbatim>\<open>None\<close>), SQLAlchemy's \<^verbatim>\<open>InvalidRequestError\<close> (a refresh that finds no
  row), and the validation error with which FastAPI answers a query parameter outside
  its declared bounds.
\<close>

datatype error =
    HTTPException nat string
  | ArgumentError
  | InvalidRequestError
  | RequestValidationError

text \<open>
  The session: the rows of the two tables, in storage order, and the calls made on the
  \<^verbatim>\<open>AsyncSession\<close> so far, oldest first.
\<close>

datatype db_call = Scalar | Scalars | Add | Execute | Commit | Refresh

record Session =
  products :: "Product list"
  categories :: "Category list"
  calls :: "db_call list"

definition issue :: "db_call list \<Rightarrow> Session \<Rightarrow> Session" where
  "issue cs db = db\<lparr>calls := calls db @ cs\<rparr>"

text \<open>The calls that change the store.\<close>

fun mutating :: "db_call \<Rightarrow> bool" where
  "mutating Add = True"
| "mutating Execute = True"
| "mutating Commit = True"
| "mutating _ = False"

text \<open>\<^verbatim>\<open>.first()\<close> of a result: its first row, or \<^verbatim>\<open>None\<close>.\<close>

fun first :: "'a list \<Rightarrow> 'a option" where
  "first [] = None"
| "first (x # _) = Some x"

text \<open>
  \<^verbatim>\<open>select(CategoryModel).where(CategoryModel.id == cid, CategoryModel.is_active == True)\<close>
  and the same selection on products.
\<close>

definition select_active_category :: "int \<Rightarrow> Session \<Rightarrow> Category list" where
  "select_active_category cid db =
     filter (\<lambda>c. cat_id c = cid \<and> cat_is_active c = True) (categories db)"

definition select_active_product :: "int \<Rightarrow> Session \<Rightarrow> Product list" where
  "select_active_product product_id db =
     filter (\<lambda>p. prod_id p = product_id \<and> is_active p = True) (products db)"

text \<open>\<^verbatim>\<open>db.refresh(product)\<close>: the row is read again by its primary key.\<close>

definition refresh :: "Product \<Rightarrow> Session \<Rightarrow> error + Product" where
  "refresh product db =
     (case first (filter (\<lambda>p. prod_id p = prod_id product) (products db)) of
        None \<Rightarrow> Inl InvalidRequestError
      | Some row \<Rightarrow> Inr row)"

subsection \<open>Listing: \<^verbatim>\<open>get_all_products\<close>\<close>

text \<open>
  The response dictionary. The request parameters \<^verbatim>\<open>page\<close>, \<^verbatim>\<open>page_size\<close>,
  \<^verbatim>\<open>category_id\<close> and \<^verbatim>\<open>seller_id\<close> carry a prime in the handler below, since
  their plain names are the fields of the records.
\<close>

record ProductList =
  items :: "Product list"
  total :: int
  page :: int
  page_size :: int

text \<open>
  Line 40 of the source: with \<^verbatim>\<open>min_price\<close> supplied, the clause appended is
  \<^verbatim>\<open>ProductModel.price >= category_id\<close>. It compares the price with the
  \<^verbatim>\<open>category_id\<close> parameter; when that parameter is \<^verbatim>\<open>None\<close>, SQLAlchemy
  refuses the ordering comparison with \<^verbatim>\<open>ArgumentError\<close> while the clause is
  built.
\<close>

fun min_price_clause :: "rat option \<Rightarrow> int option \<Rightarrow> error + (Product \<Rightarrow> bool) list" where
  "min_price_clause None _ = Inr []"
| "min_price_clause (Some _) None = Inl ArgumentError"
| "min_price_clause (Some _) (Some c) = Inr [\<lambda>p. price p \<ge> of_int c]"

definition filters ::
  "int option \<Rightarrow> rat option \<Rightarrow> rat option \<Rightarrow> bool option \<Rightarrow> int option
     \<Rightarrow> error + (Product \<Rightarrow> bool) list" where
  "filters category_id' min_price max_price in_stock seller_id' =
     (case min_price_clause min_price category_id' of
        Inl e \<Rightarrow> Inl e
      | Inr min_clause \<Rightarrow>
          Inr ([\<lambda>p. is_active p = True]
             @ (case category_id' of None \<Rightarrow> [] | Some c \<Rightarrow> [\<lambda>p. category_id p = c])
             @ min_clause
             @ (case max_price of None \<Rightarrow> [] | Some hi \<Rightarrow> [\<lambda>p. price p \<le> hi])
             @ (case in_stock of None \<Rightarrow> []
                | Some b \<Rightarrow> [\<lambda>p. if b then stock p > 0 else stock p = 0])
             @ (case seller_id' of None \<Rightarrow> [] | Some s \<Rightarrow> [\<lambda>p. seller_id p = s])))"

text \<open>\<^verbatim>\<open>.where(*filters)\<close>: a row is selected when every clause holds of it.\<close>

definition where_all :: "('r \<Rightarrow> bool) list \<Rightarrow> 'r list \<Rightarrow> 'r list" where
  "where_all fs rows = filter (\<lambda>r. list_all (\<lambda>f. f r) fs) rows"

text \<open>
  The handler: the range check, the clauses, the count (\<^verbatim>\<open>db.scalar\<close>), then the page
  (\<^verbatim>\<open>db.scalars\<close>), ordered by id with \<^verbatim>\<open>offset (page - 1) * page_size\<close> and
  \<^verbatim>\<open>limit page_size\<close>. It runs only behind the bounds of the route below
  (\<^verbatim>\<open>page >= 1\<close>, \<^verbatim>\<open>1 <= page_size <= 100\<close>), where the conversions to \<open>nat\<close> are
  exact; rows of equal id keep their storage order.
\<close>

definition get_all_products ::
  "int \<Rightarrow> int \<Rightarrow> int option \<Rightarrow> rat option \<Rightarrow> rat option \<Rightarrow> bool option \<Rightarrow> int option
     \<Rightarrow> Session \<Rightarrow> (error + ProductList) \<times> Session" where
  "get_all_products page' page_size' category_id' min_price max_price in_stock seller_id' db =
     (if (case (min_price, max_price) of (Some lo, Some hi) \<Rightarrow> lo > hi | _ \<Rightarrow> False)
      then (Inl (HTTPException 400 ''min_price couldn't be higher than max_price''), db)
      else
        case filters category_id' min_price max_price in_stock seller_id' of
          Inl e \<Rightarrow> (Inl e, db)
        | Inr fs \<Rightarrow>
            let total_rows = int (length (where_all fs (products db)));
                db1 = issue [Scalar] db;
                rows = take (nat page_size')
                         (drop (nat ((page' - 1) * page_size'))
                           (sort_key prod_id (where_all fs (products db1))));
                db2 = issue [Scalars] db1
            in (Inr \<lparr>items = rows, total = total_rows, page = page', page_size = page_size'\<rparr>,
                db2))"

text \<open>
  The declared bounds of the query parameters, which FastAPI checks before it calls the
  handler: \<^verbatim>\<open>Query(default, ge=.., le=..)\<close> on an integer and
  \<^verbatim>\<open>Query(None, ge=0)\<close> on an optional price.
\<close>

definition Query :: "int \<Rightarrow> int option \<Rightarrow> int option \<Rightarrow> int option \<Rightarrow> error + int" where
  "Query dflt ge le raw =
     (case raw of
        None \<Rightarrow> Inr dflt
      | Some v \<Rightarrow>
          if (case ge of None \<Rightarrow> False | Some g \<Rightarrow> v < g)
             \<or> (case le of None \<Rightarrow> False | Some l \<Rightarrow> l < v)
          then Inl RequestValidationError
          else Inr v)"

definition Query_price :: "rat option \<Rightarrow> error + rat option" where
  "Query_price raw =
     (case raw of
        None \<Rightarrow> Inr None
      | Some v \<Rightarrow> if v < 0 then Inl RequestValidationError else Inr (Some v))"

text \<open>The route \<^verbatim>\<open>GET /products/\<close>: validation of the parameters, then the handler.\<close>

definition get_products_route ::
  "int option \<Rightarrow> int option \<Rightarrow> int option \<Rightarrow> rat option \<Rightarrow> rat option \<Rightarrow> bool option
     \<Rightarrow> int option \<Rightarrow> Session \<Rightarrow> (error + ProductList) \<times> Session" where
  "get_products_route raw_page raw_page_size category_id' raw_min raw_max in_stock seller_id' db =
     (case Query 1 (Some 1) None raw_page of
        Inl e \<Rightarrow> (Inl e, db)
      | Inr page' \<Rightarrow>
     (case Query 20 (Some 1) (Some 100) raw_page_size of
        Inl e \<Rightarrow> (Inl e, db)
      | Inr page_size' \<Rightarrow>
     (case Query_price raw_min of
        Inl e \<Rightarrow> (Inl e, db)
      | Inr min_price \<Rightarrow>
     (case Query_price raw_max of
        Inl e \<Rightarrow> (Inl e, db)
      | Inr max_price \<Rightarrow>
          get_all_products page' page_size' category_id' min_price max_price in_stock
            seller_id' db))))"

subsection \<open>Creation: \<^verbatim>\<open>create_product\<close>\<close>

text \<open>
  Modelled from the spec: the constructor of \<^verbatim>\<open>ProductModel\<close> (the model is not
  part of the sources): the payload's columns, the given seller, and \<^verbatim>\<open>is_active\<close>
  defaulted to true. The primary key is assigned by the store on insertion; it is the
  parameter \<open>new_id\<close>.
\<close>

definition ProductModel :: "ProductCreate \<Rightarrow> int \<Rightarrow> int \<Rightarrow> Product" where
  "ProductModel product seller new_id =
     \<lparr>name = name product, description = description product, price = price product,
      stock = stock product, category_id = category_id product,
      prod_id = new_id, seller_id = seller, is_active = True\<rparr>"

definition create_product ::
  "ProductCreate \<Rightarrow> int \<Rightarrow> User \<Rightarrow> Session \<Rightarrow> (error + Product) \<times> Session" where
  "create_product product new_id current_user db =
     (let db1 = issue [Scalars] db in
      case first (select_active_category (category_id product) db) of
        Some cat \<Rightarrow>
          let db_product = ProductModel product (user_id current_user) new_id;
              db2 = issue [Add, Commit, Refresh] (db1\<lparr>products := products db1 @ [db_product]\<rparr>)
          in (refresh db_product db2, db2)
      | None \<Rightarrow> (Inl (HTTPException 400 ''Category not found''), db1))"

subsection \<open>Retrieval: \<^verbatim>\<open>get_product\<close>\<close>

definition get_product :: "int \<Rightarrow> Session \<Rightarrow> (error + Product) \<times> Session" where
  "get_product product_id db =
     (let db1 = issue [Scalars] db in
      case first (select_active_product product_id db) of
        Some product \<Rightarrow>
          (let db2 = issue [Scalars] db1 in
           case first (select_active_category (category_id product) db1) of
             Some category \<Rightarrow> (Inr product, db2)
           | None \<Rightarrow> (Inl (HTTPException 404 ''Category not found or inactive''), db2))
      | None \<Rightarrow> (Inl (HTTPException 404 ''Product not found or inactive''), db1))"

subsection \<open>Update: \<^verbatim>\<open>update_product\<close>\<close>

text \<open>\<^verbatim>\<open>.values(**body_product.model_dump())\<close>: every column of the payload is set.\<close>

definition set_values :: "ProductCreate \<Rightarrow> Product \<Rightarrow> Product" where
  "set_values body row =
     row\<lparr>name := name body, description := description body, price := price body,
         stock := stock body, category_id := category_id body\<rparr>"

definition update_product ::
  "int \<Rightarrow> ProductCreate \<Rightarrow> User \<Rightarrow> Session \<Rightarrow> (error + Product) \<times> Session" where
  "update_product product_id body_product current_user db =
     (let db1 = issue [Scalars] db in
      case first (select_active_product product_id db) of
        None \<Rightarrow> (Inl (HTTPException 404 ''Product not found or inactive''), db1)
      | Some product \<Rightarrow>
          if seller_id product \<noteq> user_id current_user
          then (Inl (HTTPException 403 ''You can only update your own products''), db1)
          else
            (let db2 = issue [Scalars] db1 in
             (case first (select_active_category (category_id product) db1) of
                None \<Rightarrow> (Inl (HTTPException 400 ''Category not found or inactive''), db2)
              | Some category \<Rightarrow>
                  (let db3 = issue [Execute, Commit, Refresh]
                        (db2\<lparr>products :=
                               map (\<lambda>row. if prod_id row = product_id
                                           then set_values body_product row else row)
                                 (products db2)\<rparr>)
                   in (refresh product db3, db3)))))"

subsection \<open>Soft deletion: \<^verbatim>\<open>delete_product\<close>\<close>

definition delete_product :: "int \<Rightarrow> User \<Rightarrow> Session \<Rightarrow> (error + Product) \<times> Session" where
  "delete_product product_id current_user db =
     (let db1 = issue [Scalars] db in
      case first (select_active_product product_id db) of
        None \<Rightarrow> (Inl (HTTPException 404 ''Product not found or inactive''), db1)
      | Some product \<Rightarrow>
          if seller_id product \<noteq> user_id current_user
          then (Inl (HTTPException 403 ''You can only delete your own products''), db1)
          else
            let db2 = issue [Execute, Commit, Refresh]
                  (db1\<lparr>products :=
                         map (\<lambda>row. if prod_id row = product_id
                                     then row\<lparr>is_active := False\<rparr> else row)
                           (products db1)\<rparr>)
            in (refresh product db2, db2))"

subsection \<open>The contract of the specification, for comparison\<close>

text \<open>
  The filter predicate as the specification words it: an active product, narrowed by
  category equality, the lower and the upper price bound, stock availability and seller
  equality, each only when supplied, all conjoined.
\<close>

definition spec_filter ::
  "int option \<Rightarrow> rat option \<Rightarrow> rat option \<Rightarrow> bool option \<Rightarrow> int option \<Rightarrow> Product \<Rightarrow> bool" where
  "spec_filter category_id' min_price max_price in_stock seller_id' p \<longleftrightarrow>
     is_active p
     \<and> (case category_id' of None \<Rightarrow> True | Some c \<Rightarrow> category_id p = c)
     \<and> (case min_price of None \<Rightarrow> True | Some lo \<Rightarrow> price p \<ge> lo)
     \<and> (case max_price of None \<Rightarrow> True | Some hi \<Rightarrow> price p \<le> hi)
     \<and> (case in_stock of None \<Rightarrow> True | Some b \<Rightarrow> if b then stock p > 0 else stock p = 0)
     \<and> (case seller_id' of None \<Rightarrow> True | Some s \<Rightarrow> seller_id p = s)"

text \<open>The invariant of the data model: an active product references an active category.\<close>

definition has_active_category :: "Session \<Rightarrow> Product \<Rightarrow> bool" where
  "has_active_category db p =
     list_ex (\<lambda>c. cat_id c = category_id p \<and> cat_is_active c) (categories db)"

definition active_in_active :: "Session \<Rightarrow> bool" where
  "active_in_active db =
     list_all (\<lambda>p. if is_active p then has_active_category db p else True) (products db)"

subsection \<open>A small store, for the concrete instances\<close>

definition books :: Category where
  "books = \<lparr>cat_id = 1, cat_name = ''Books'', cat_is_active = True\<rparr>"

definition toys :: Category where
  "toys = \<lparr>cat_id = 2, cat_name = ''Toys'', cat_is_active = False\<rparr>"

definition pen :: Product where
  "pen = \<lparr>name = ''Pen'', description = ''Blue ink'', price = 5, stock = 3, category_id = 1,
          prod_id = 1, seller_id = 7, is_active = True\<rparr>"

definition atlas :: Product where
  "atlas = \<lparr>name = ''Atlas'', description = ''World maps'', price = 20, stock = 0,
            category_id = 1, prod_id = 2, seller_id = 8, is_active = True\<rparr>"

definition robot :: Product where
  "robot = \<lparr>name = ''Robot'', description = ''Tin toy'', price = 15, stock = 1,
            category_id = 2, prod_id = 3, seller_id = 7, is_active = False\<rparr>"

definition kite :: Product where
  "kite = \<lparr>name = ''Kite'', description = ''Paper kite'', price = 9, stock = 4,
           category_id = 2, prod_id = 4, seller_id = 7, is_active = True\<rparr>"

definition shop :: Session where
  "shop = \<lparr>products = [pen, atlas, robot], categories = [books, toys], calls = []\<rparr>"

definition stale_shop :: Session where
  "stale_shop = \<lparr>products = [pen, kite], categories = [books, toys], calls = []\<rparr>"

definition seller7 :: User where
  "seller7 = \<lparr>user_id = 7\<rparr>"

definition seller8 :: User where
  "seller8 = \<lparr>user_id = 8\<rparr>"

definition pencil :: ProductCreate where
  "pencil = \<lparr>name = ''Pencil'', description = ''Graphite'', price = 2, stock = 10,
             category_id = 1\<rparr>"

definition yoyo :: ProductCreate where
  "yoyo = \<lparr>name = ''Yoyo'', description = ''Wooden'', price = 4, stock = 6, category_id = 2\<rparr>"

section \<open>Properties\<close>

subsection \<open>Lookups\<close>

lemmas store_defs = shop_def stale_shop_def pen_def atlas_def robot_def kite_def books_def toys_def
  seller7_def seller8_def pencil_def yoyo_def

lemma first_None_iff: "first xs = None \<longleftrightarrow> xs = []"
  by (cases xs) simp_all

lemma first_filter_unique:
  assumes "distinct (map f xs)" and "x \<in> set xs" and "P x" and "\<And>y. P y \<Longrightarrow> f y = f x"
  shows "first (filter P xs) = Some x"
  using assms(1,2)
proof (induction xs)
  case Nil
  then show ?case by simp
next
  case (Cons a xs)
  show ?case
  proof (cases "a = x")
    case True
    then show ?thesis using assms(3) by simp
  next
    case False
    with Cons.prems have xin: "x \<in> set xs" and "f a \<notin> f ` set xs" by auto
    then have "f a \<noteq> f x" by auto
    with assms(4) have "\<not> P a" by auto
    with Cons xin show ?thesis by simp
  qed
qed

lemma active_product_found:
  assumes "distinct (map prod_id (products db))" and "p \<in> set (products db)"
    and "prod_id p = product_id" and "is_active p"
  shows "first (select_active_product product_id db) = Some p"
  unfolding select_active_product_def
  by (rule first_filter_unique [where f = prod_id]) (use assms in auto)

lemma no_active_product:
  assumes "\<not> (\<exists>p\<in>set (products db). prod_id p = product_id \<and> is_active p)"
  shows "first (select_active_product product_id db) = None"
  using assms by (auto simp: first_None_iff select_active_product_def filter_empty_conv)

lemma active_category_iff:
  "first (select_active_category cid db) = None \<longleftrightarrow>
     \<not> (\<exists>c\<in>set (categories db). cat_id c = cid \<and> cat_is_active c)"
  by (auto simp: first_None_iff select_active_category_def filter_empty_conv)

subsection \<open>Retrieval\<close>

lemma select_active_category_issue [simp]:
  "select_active_category cid (issue cs db) = select_active_category cid db"
  by (simp add: select_active_category_def issue_def)

text \<open>
  Claim C6. For every call of \<^verbatim>\<open>get_product\<close>: when no active product has the
  given id, the call fails with 404 "Product not found or inactive"; when the active
  product with that id has no active category, it fails with 404 "Category not found
  or inactive" although the product row exists; otherwise it returns the product. The
  id is the primary key of the table.
\<close>

theorem get_product_outcome:
  assumes "distinct (map prod_id (products db))"
  shows "(\<not> (\<exists>p\<in>set (products db). prod_id p = product_id \<and> is_active p) \<longrightarrow>
            fst (get_product product_id db) = Inl (HTTPException 404 ''Product not found or inactive''))
       \<and> (\<forall>p\<in>set (products db). prod_id p = product_id \<and> is_active p \<longrightarrow>
            fst (get_product product_id db) =
              (if \<exists>c\<in>set (categories db). cat_id c = category_id p \<and> cat_is_active c
               then Inr p
               else Inl (HTTPException 404 ''Category not found or inactive'')))"
proof (intro conjI impI ballI)
  assume "\<not> (\<exists>p\<in>set (products db). prod_id p = product_id \<and> is_active p)"
  then have "first (select_active_product product_id db) = None"
    by (rule no_active_product)
  then show "fst (get_product product_id db) = Inl (HTTPException 404 ''Product not found or inactive'')"
    by (simp add: get_product_def)
next
  fix p
  assume "p \<in> set (products db)" and "prod_id p = product_id \<and> is_active p"
  with assms have found: "first (select_active_product product_id db) = Some p"
    by (simp add: active_product_found)
  show "fst (get_product product_id db) =
          (if \<exists>c\<in>set (categories db). cat_id c = category_id p \<and> cat_is_active c
           then Inr p
           else Inl (HTTPException 404 ''Category not found or inactive''))"
  proof (cases "first (select_active_category (category_id p) db)")
    case None
    then show ?thesis
      using found active_category_iff [of "category_id p" db]
      by (simp add: get_product_def)
  next
    case (Some c)
    then show ?thesis
      using found active_category_iff [of "category_id p" db]
      by (simp add: get_product_def)
  qed
qed

theorem get_product_outcome_witness:
  "fst (get_product 1 stale_shop) = Inr pen
   \<and> fst (get_product 4 stale_shop) = Inl (HTTPException 404 ''Category not found or inactive'')
   \<and> fst (get_product 9 stale_shop) = Inl (HTTPException 404 ''Product not found or inactive'')"
  using get_product_outcome [of stale_shop 1] get_product_outcome [of stale_shop 4]
    get_product_outcome [of stale_shop 9]
  by (simp add: store_defs)

subsection \<open>Listing\<close>

text \<open>
  Claim C4. When both price bounds are supplied and the lower exceeds the upper, the
  handler fails with 400, whatever the other filters, and the session it leaves is the
  one it was given: no call was made on it.
\<close>

theorem invalid_range_before_query:
  assumes "min_price = Some lo" and "max_price = Some hi" and "lo > hi"
  shows "get_all_products page' page_size' category_id' min_price max_price in_stock seller_id' db
           = (Inl (HTTPException 400 ''min_price couldn't be higher than max_price''), db)"
  using assms by (simp add: get_all_products_def)

theorem invalid_range_before_query_witness:
  "get_all_products 1 20 (Some 1) (Some 10) (Some 5) (Some True) (Some 7) shop
     = (Inl (HTTPException 400 ''min_price couldn't be higher than max_price''), shop)"
  using invalid_range_before_query [of "Some 10" 10 "Some 5" 5 1 20 "Some 1" "Some True" "Some 7" shop]
  by simp

subsection \<open>Update\<close>

lemma issue_simps [simp]:
  "products (issue cs db) = products db"
  "categories (issue cs db) = categories db"
  "calls (issue cs db) = calls db @ cs"
  by (simp_all add: issue_def)

lemma select_active_product_issue [simp]:
  "select_active_product product_id (issue cs db) = select_active_product product_id db"
  by (simp add: select_active_product_def)

lemma first_filter_Some:
  "first (filter P xs) = Some x \<Longrightarrow> x \<in> set xs \<and> P x"
proof (induction xs)
  case Nil
  then show ?case by simp
next
  case (Cons a xs)
  then show ?case by (cases "P a") auto
qed

lemma select_active_product_sound:
  assumes "first (select_active_product product_id db) = Some p"
  shows "p \<in> set (products db) \<and> prod_id p = product_id \<and> is_active p"
  using first_filter_Some [OF assms [unfolded select_active_product_def]] by simp

lemma first_filter_map_exists:
  assumes "p \<in> set rows" and "\<And>row. prod_id (g row) = prod_id row"
  shows "\<exists>row. first (filter (\<lambda>q. prod_id q = prod_id p) (map g rows)) = Some row"
proof -
  have "g p \<in> set (filter (\<lambda>q. prod_id q = prod_id p) (map g rows))"
    using assms by auto
  then have "filter (\<lambda>q. prod_id q = prod_id p) (map g rows) \<noteq> []"
    by (metis empty_iff empty_set)
  then show ?thesis
    by (cases "filter (\<lambda>q. prod_id q = prod_id p) (map g rows)") simp_all
qed

lemma first_filter_map_unique:
  assumes "distinct (map prod_id rows)" and "p \<in> set rows"
    and "\<And>row. prod_id (g row) = prod_id row"
  shows "first (filter (\<lambda>q. prod_id q = prod_id p) (map g rows)) = Some (g p)"
proof (rule first_filter_unique [where f = prod_id])
  have "map prod_id (map g rows) = map prod_id rows"
    using assms(3) by simp
  with assms(1) show "distinct (map prod_id (map g rows))"
    by (simp only:)
  show "g p \<in> set (map g rows)" using assms(2) by simp
  show "prod_id (g p) = prod_id p" by (rule assms(3))
  show "\<And>y. prod_id y = prod_id p \<Longrightarrow> prod_id y = prod_id (g p)"
    by (simp add: assms(3))
qed

lemma prod_id_set_values [simp]: "prod_id (set_values body row) = prod_id row"
  by (simp add: set_values_def)

lemma update_product_no_product:
  assumes "first (select_active_product product_id db) = None"
  shows "update_product product_id body u db =
           (Inl (HTTPException 404 ''Product not found or inactive''), issue [Scalars] db)"
  using assms by (simp add: update_product_def)

lemma update_product_not_owner:
  assumes "first (select_active_product product_id db) = Some p"
    and "seller_id p \<noteq> user_id u"
  shows "update_product product_id body u db =
           (Inl (HTTPException 403 ''You can only update your own products''), issue [Scalars] db)"
  using assms by (simp add: update_product_def)

lemma update_product_no_category:
  assumes "first (select_active_product product_id db) = Some p"
    and "seller_id p = user_id u"
    and "first (select_active_category (category_id p) db) = None"
  shows "update_product product_id body u db =
           (Inl (HTTPException 400 ''Category not found or inactive''),
            issue [Scalars] (issue [Scalars] db))"
  using assms by (simp add: update_product_def)

lemma update_product_applied:
  assumes "first (select_active_product product_id db) = Some p"
    and "seller_id p = user_id u"
    and "first (select_active_category (category_id p) db) = Some c"
  shows "\<exists>row. fst (update_product product_id body u db) = Inr row"
proof -
  from select_active_product_sound [OF assms(1)]
  have pin: "p \<in> set (products db)" and pid: "prod_id p = product_id" by simp_all
  have keep: "\<And>row. prod_id (if prod_id row = product_id then set_values body row else row)
      = prod_id row"
    by simp
  obtain row where
    "first (filter (\<lambda>q. prod_id q = prod_id p)
       (map (\<lambda>row. if prod_id row = product_id then set_values body row else row)
          (products db))) = Some row"
    using first_filter_map_exists [OF pin keep] by blast
  then show ?thesis
    using assms by (simp add: update_product_def refresh_def Let_def)
qed

lemma update_product_error_frame:
  assumes "fst (update_product product_id body u db) = Inl e"
  shows "products (snd (update_product product_id body u db)) = products db
       \<and> categories (snd (update_product product_id body u db)) = categories db
       \<and> filter mutating (calls (snd (update_product product_id body u db)))
           = filter mutating (calls db)"
proof (cases "first (select_active_product product_id db)")
  case None
  then show ?thesis by (simp add: update_product_no_product)
next
  case (Some p)
  show ?thesis
  proof (cases "seller_id p = user_id u")
    case False
    with Some show ?thesis by (simp add: update_product_not_owner)
  next
    case True
    show ?thesis
    proof (cases "first (select_active_category (category_id p) db)")
      case None
      with Some True show ?thesis by (simp add: update_product_no_category)
    next
      case (Some c)
      from update_product_applied [OF \<open>first (select_active_product product_id db) = Some p\<close> True Some]
      obtain row where "fst (update_product product_id body u db) = Inr row"
        by blast
      with assms show ?thesis by simp
    qed
  qed
qed

text \<open>
  Claim C5. An update by a user who is not the seller of the active product fails with
  403 and leaves the stored products as they were. The checks come in order: 404 when
  no active product has the id, then 403 on an ownership mismatch (whatever the state
  of the category), then 400 when the product's category is missing or inactive; and
  whenever the call ends in an error, the rows of both tables are unchanged and no
  mutating call (add, execute, commit) was made on the session.
\<close>

theorem update_product_checks:
  assumes "distinct (map prod_id (products db))"
    and "r = update_product product_id body u db"
  shows "(\<not> (\<exists>p\<in>set (products db). prod_id p = product_id \<and> is_active p) \<longrightarrow>
            fst r = Inl (HTTPException 404 ''Product not found or inactive''))
       \<and> (\<forall>p\<in>set (products db).
            prod_id p = product_id \<and> is_active p \<and> seller_id p \<noteq> user_id u \<longrightarrow>
            fst r = Inl (HTTPException 403 ''You can only update your own products'')
            \<and> products (snd r) = products db)
       \<and> (\<forall>p\<in>set (products db).
            prod_id p = product_id \<and> is_active p \<and> seller_id p = user_id u
            \<and> \<not> (\<exists>c\<in>set (categories db). cat_id c = category_id p \<and> cat_is_active c) \<longrightarrow>
            fst r = Inl (HTTPException 400 ''Category not found or inactive''))
       \<and> (\<forall>e. fst r = Inl e \<longrightarrow>
            products (snd r) = products db \<and> categories (snd r) = categories db
            \<and> filter mutating (calls (snd r)) = filter mutating (calls db))"
proof (intro conjI impI ballI allI)
  assume "\<not> (\<exists>p\<in>set (products db). prod_id p = product_id \<and> is_active p)"
  then show "fst r = Inl (HTTPException 404 ''Product not found or inactive'')"
    by (simp add: assms(2) update_product_no_product no_active_product)
next
  fix p
  assume "p \<in> set (products db)"
    and "prod_id p = product_id \<and> is_active p \<and> seller_id p \<noteq> user_id u"
  then have "first (select_active_product product_id db) = Some p" and "seller_id p \<noteq> user_id u"
    using assms(1) by (simp_all add: active_product_found)
  then have "r = (Inl (HTTPException 403 ''You can only update your own products''), issue [Scalars] db)"
    unfolding assms(2) by (rule update_product_not_owner)
  then show "fst r = Inl (HTTPException 403 ''You can only update your own products'')"
    and "products (snd r) = products db"
    by simp_all
next
  fix p
  assume "p \<in> set (products db)"
    and h: "prod_id p = product_id \<and> is_active p \<and> seller_id p = user_id u
      \<and> \<not> (\<exists>c\<in>set (categories db). cat_id c = category_id p \<and> cat_is_active c)"
  then have "first (select_active_product product_id db) = Some p"
    using assms(1) by (simp add: active_product_found)
  moreover have "seller_id p = user_id u" using h by simp
  moreover have "first (select_active_category (category_id p) db) = None"
    using h by (simp add: active_category_iff)
  ultimately show "fst r = Inl (HTTPException 400 ''Category not found or inactive'')"
    by (simp add: assms(2) update_product_no_category)
next
  fix e
  assume "fst r = Inl e"
  then have "fst (update_product product_id body u db) = Inl e"
    by (simp add: assms(2))
  from update_product_error_frame [OF this]
  show "products (snd r) = products db" and "categories (snd r) = categories db"
    and "filter mutating (calls (snd r)) = filter mutating (calls db)"
    by (simp_all add: assms(2))
qed

theorem update_product_checks_witness:
  "fst (update_product 9 pencil seller7 stale_shop)
     = Inl (HTTPException 404 ''Product not found or inactive'')
   \<and> fst (update_product 1 pencil seller8 stale_shop)
     = Inl (HTTPException 403 ''You can only update your own products'')
   \<and> products (snd (update_product 1 pencil seller8 stale_shop)) = products stale_shop
   \<and> fst (update_product 4 pencil seller8 stale_shop)
     = Inl (HTTPException 403 ''You can only update your own products'')
   \<and> fst (update_product 4 pencil seller7 stale_shop)
     = Inl (HTTPException 400 ''Category not found or inactive'')
   \<and> filter mutating (calls (snd (update_product 4 pencil seller7 stale_shop))) = []"
  using update_product_checks [of stale_shop "update_product 9 pencil seller7 stale_shop" 9 pencil seller7]
    update_product_checks [of stale_shop "update_product 1 pencil seller8 stale_shop" 1 pencil seller8]
    update_product_checks [of stale_shop "update_product 4 pencil seller8 stale_shop" 4 pencil seller8]
    update_product_checks [of stale_shop "update_product 4 pencil seller7 stale_shop" 4 pencil seller7]
  by (simp add: store_defs)

subsection \<open>Soft deletion\<close>

lemma delete_product_no_product:
  assumes "first (select_active_product product_id db) = None"
  shows "delete_product product_id u db =
           (Inl (HTTPException 404 ''Product not found or inactive''), issue [Scalars] db)"
  using assms by (simp add: delete_product_def)

lemma delete_product_not_owner:
  assumes "first (select_active_product product_id db) = Some p"
    and "seller_id p \<noteq> user_id u"
  shows "delete_product product_id u db =
           (Inl (HTTPException 403 ''You can only delete your own products''), issue [Scalars] db)"
  using assms by (simp add: delete_product_def)

lemma delete_product_applied:
  assumes "first (select_active_product product_id db) = Some p"
    and "seller_id p = user_id u"
  shows "snd (delete_product product_id u db) =
           issue [Scalars, Execute, Commit, Refresh]
             (db\<lparr>products :=
                   map (\<lambda>row. if prod_id row = product_id then row\<lparr>is_active := False\<rparr> else row)
                     (products db)\<rparr>)"
  using assms by (simp add: delete_product_def issue_def Let_def)

lemma delete_product_returns:
  assumes "first (select_active_product product_id db) = Some p"
    and "seller_id p = user_id u"
  shows "fst (delete_product product_id u db) =
           refresh p (db\<lparr>products :=
                   map (\<lambda>row. if prod_id row = product_id then row\<lparr>is_active := False\<rparr> else row)
                     (products db)\<rparr>)"
  using assms by (simp add: delete_product_def issue_def refresh_def Let_def)

lemma delete_product_success:
  assumes "delete_product product_id u db = (Inr r, db')"
  shows "\<exists>p. first (select_active_product product_id db) = Some p \<and> seller_id p = user_id u"
proof (cases "first (select_active_product product_id db)")
  case None
  with assms show ?thesis by (simp add: delete_product_no_product)
next
  case (Some p)
  with assms show ?thesis
    by (cases "seller_id p = user_id u") (simp_all add: delete_product_not_owner)
qed

text \<open>
  Claim C8. When the owner soft-deletes an active product twice, the first call
  succeeds, returns the product with the flag cleared and leaves no active row with
  that id in the store; the second call, on the store the first one left, fails with
  404 "Product not found or inactive".
\<close>

theorem delete_product_twice:
  assumes "distinct (map prod_id (products db))" and "p \<in> set (products db)"
    and "prod_id p = product_id" and "is_active p" and "seller_id p = user_id u"
    and "db' = snd (delete_product product_id u db)"
  shows "fst (delete_product product_id u db) = Inr (p\<lparr>is_active := False\<rparr>)
       \<and> p\<lparr>is_active := False\<rparr> \<in> set (products db')
       \<and> \<not> (\<exists>q\<in>set (products db'). prod_id q = product_id \<and> is_active q)
       \<and> fst (delete_product product_id u db')
           = Inl (HTTPException 404 ''Product not found or inactive'')"
proof -
  let ?g = "\<lambda>row. if prod_id row = product_id then row\<lparr>is_active := False\<rparr> else row"
  have found: "first (select_active_product product_id db) = Some p"
    using assms(1-4) by (simp add: active_product_found)
  have rows: "products db' = map ?g (products db)"
    by (simp add: assms(6) delete_product_applied [OF found assms(5)])
  have keep: "\<And>row. prod_id (?g row) = prod_id row" by simp
  have "first (filter (\<lambda>q. prod_id q = prod_id p) (map ?g (products db))) = Some (?g p)"
    using first_filter_map_unique [OF assms(1,2) keep] .
  then have 1: "fst (delete_product product_id u db) = Inr (p\<lparr>is_active := False\<rparr>)"
    by (simp add: delete_product_returns [OF found assms(5)] refresh_def assms(3))
  have gp: "?g p = p\<lparr>is_active := False\<rparr>"
    using assms(3) by simp
  have "?g p \<in> ?g ` set (products db)"
    using assms(2) by (rule imageI)
  then have 2: "p\<lparr>is_active := False\<rparr> \<in> set (products db')"
    unfolding rows gp by simp
  have 3: "\<not> (\<exists>q\<in>set (products db'). prod_id q = product_id \<and> is_active q)"
  proof
    assume "\<exists>q\<in>set (products db'). prod_id q = product_id \<and> is_active q"
    then obtain q where q: "q \<in> ?g ` set (products db)" "prod_id q = product_id" "is_active q"
      unfolding rows by auto
    then obtain row where row: "q = ?g row" by blast
    show False
    proof (cases "prod_id row = product_id")
      case True
      with row q(3) show False by simp
    next
      case False
      with row q(2) show False by simp
    qed
  qed
  then have "first (select_active_product product_id db') = None"
    by (rule no_active_product)
  then have 4: "fst (delete_product product_id u db')
      = Inl (HTTPException 404 ''Product not found or inactive'')"
    by (simp add: delete_product_no_product)
  from 1 2 3 4 show ?thesis by blast
qed

theorem delete_product_twice_witness:
  "fst (delete_product 1 seller7 shop) = Inr (pen\<lparr>is_active := False\<rparr>)
   \<and> fst (delete_product 1 seller7 (snd (delete_product 1 seller7 shop)))
       = Inl (HTTPException 404 ''Product not found or inactive'')"
  using delete_product_twice [of shop pen 1 seller7 "snd (delete_product 1 seller7 shop)"]
  by (simp add: store_defs)

text \<open>
  Claim C9. After a successful soft deletion the categories are as before, the products
  table has the same rows in the same places, every column but \<^verbatim>\<open>is_active\<close> of
  every row is unchanged, a row that changed at all has the given id and went from
  active to inactive, and the table did hold an active row with that id, which is now
  inactive.
\<close>

theorem delete_product_frame:
  assumes "delete_product product_id u db = (Inr r, db')"
  shows "categories db' = categories db
       \<and> length (products db') = length (products db)
       \<and> (\<forall>i<length (products db).
            prod_id (products db' ! i) = prod_id (products db ! i)
            \<and> name (products db' ! i) = name (products db ! i)
            \<and> description (products db' ! i) = description (products db ! i)
            \<and> price (products db' ! i) = price (products db ! i)
            \<and> stock (products db' ! i) = stock (products db ! i)
            \<and> category_id (products db' ! i) = category_id (products db ! i)
            \<and> seller_id (products db' ! i) = seller_id (products db ! i)
            \<and> (products db' ! i \<noteq> products db ! i \<longrightarrow>
                  prod_id (products db ! i) = product_id
                  \<and> is_active (products db ! i) \<and> \<not> is_active (products db' ! i)))
       \<and> (\<exists>i<length (products db).
            prod_id (products db ! i) = product_id
            \<and> is_active (products db ! i) \<and> \<not> is_active (products db' ! i))"
proof -
  let ?g = "\<lambda>row. if prod_id row = product_id then row\<lparr>is_active := False\<rparr> else row"
  from delete_product_success [OF assms] obtain p
    where found: "first (select_active_product product_id db) = Some p"
      and owner: "seller_id p = user_id u"
    by blast
  have "db' = snd (delete_product product_id u db)"
    by (simp add: assms)
  then have db': "db' = issue [Scalars, Execute, Commit, Refresh]
             (db\<lparr>products := map ?g (products db)\<rparr>)"
    by (simp only: delete_product_applied [OF found owner])
  have cats: "categories db' = categories db"
    by (simp add: db')
  have rows: "products db' = map ?g (products db)"
    by (simp add: db')
  have len: "length (products db') = length (products db)"
    by (simp add: rows)
  have each: "\<forall>i<length (products db).
            prod_id (products db' ! i) = prod_id (products db ! i)
            \<and> name (products db' ! i) = name (products db ! i)
            \<and> description (products db' ! i) = description (products db ! i)
            \<and> price (products db' ! i) = price (products db ! i)
            \<and> stock (products db' ! i) = stock (products db ! i)
            \<and> category_id (products db' ! i) = category_id (products db ! i)
            \<and> seller_id (products db' ! i) = seller_id (products db ! i)
            \<and> (products db' ! i \<noteq> products db ! i \<longrightarrow>
                  prod_id (products db ! i) = product_id
                  \<and> is_active (products db ! i) \<and> \<not> is_active (products db' ! i))"
  proof (intro allI impI)
    fix i assume "i < length (products db)"
    then have "products db' ! i = ?g (products db ! i)"
      by (simp add: rows)
    then show "prod_id (products db' ! i) = prod_id (products db ! i)
            \<and> name (products db' ! i) = name (products db ! i)
            \<and> description (products db' ! i) = description (products db ! i)
            \<and> price (products db' ! i) = price (products db ! i)
            \<and> stock (products db' ! i) = stock (products db ! i)
            \<and> category_id (products db' ! i) = category_id (products db ! i)
            \<and> seller_id (products db' ! i) = seller_id (products db ! i)
            \<and> (products db' ! i \<noteq> products db ! i \<longrightarrow>
                  prod_id (products db ! i) = product_id
                  \<and> is_active (products db ! i) \<and> \<not> is_active (products db' ! i))"
      by (cases "is_active (products db ! i)") auto
  qed
  from select_active_product_sound [OF found]
  have "p \<in> set (products db)" and pp: "prod_id p = product_id" "is_active p"
    by simp_all
  then obtain i where i: "i < length (products db)" "products db ! i = p"
    by (auto simp: in_set_conv_nth)
  then have "products db' ! i = ?g p"
    by (simp add: rows)
  with i pp have "\<exists>i<length (products db).
            prod_id (products db ! i) = product_id
            \<and> is_active (products db ! i) \<and> \<not> is_active (products db' ! i)"
    by auto
  with cats len each show ?thesis by blast
qed

theorem delete_product_frame_witness:
  "products (snd (delete_product 1 seller7 shop)) = [pen\<lparr>is_active := False\<rparr>, atlas, robot]
   \<and> categories (snd (delete_product 1 seller7 shop)) = categories shop
   \<and> length (products (snd (delete_product 1 seller7 shop))) = length (products shop)"
proof -
  have run: "delete_product 1 seller7 shop =
      (Inr (pen\<lparr>is_active := False\<rparr>),
       \<lparr>products = [pen\<lparr>is_active := False\<rparr>, atlas, robot], categories = [books, toys],
        calls = [Scalars, Execute, Commit, Refresh]\<rparr>)"
    by (simp add: delete_product_def select_active_product_def refresh_def issue_def
        shop_def pen_def atlas_def robot_def seller7_def)
  from delete_product_frame [OF run] run show ?thesis
    by (simp add: shop_def)
qed

subsection \<open>Creation\<close>

lemma create_product_no_category:
  assumes "first (select_active_category (category_id product) db) = None"
  shows "create_product product new_id u db =
           (Inl (HTTPException 400 ''Category not found''), issue [Scalars] db)"
  using assms by (simp add: create_product_def)

lemma create_product_added:
  assumes "first (select_active_category (category_id product) db) = Some c"
  shows "snd (create_product product new_id u db) =
           issue [Scalars, Add, Commit, Refresh]
             (db\<lparr>products := products db @ [ProductModel product (user_id u) new_id]\<rparr>)"
  using assms by (simp add: create_product_def issue_def Let_def)

lemma create_product_returns:
  assumes "first (select_active_category (category_id product) db) = Some c"
  shows "fst (create_product product new_id u db) =
           refresh (ProductModel product (user_id u) new_id)
             (db\<lparr>products := products db @ [ProductModel product (user_id u) new_id]\<rparr>)"
  using assms by (simp add: create_product_def issue_def refresh_def Let_def)

lemma first_filter_append_fresh:
  assumes "\<forall>x\<in>set xs. \<not> P x" and "P y"
  shows "first (filter P (xs @ [y])) = Some y"
proof -
  have "filter P xs = []" using assms(1) by (simp add: filter_empty_conv)
  then show ?thesis using assms(2) by simp
qed

lemma ProductModel_simps [simp]:
  "prod_id (ProductModel product s i) = i"
  "seller_id (ProductModel product s i) = s"
  "is_active (ProductModel product s i) = True"
  "name (ProductModel product s i) = name product"
  "description (ProductModel product s i) = description product"
  "price (ProductModel product s i) = price product"
  "stock (ProductModel product s i) = stock product"
  "category_id (ProductModel product s i) = category_id product"
  by (simp_all add: ProductModel_def)

text \<open>
  Claim C7. A creation whose payload names a missing or inactive category fails with
  400 "Category not found"; both tables are as before and no add, execute or commit was
  made. A creation that names an active category appends one row to the products
  table: it carries the payload's columns, the acting seller's id as
  \<^verbatim>\<open>seller_id\<close> and \<^verbatim>\<open>is_active\<close> true; when the key the store assigned is
  fresh, that row is what the call returns.
\<close>

theorem create_product_outcome:
  assumes "r = create_product product new_id u db"
  shows "(\<not> (\<exists>c\<in>set (categories db). cat_id c = category_id product \<and> cat_is_active c) \<longrightarrow>
            fst r = Inl (HTTPException 400 ''Category not found'')
            \<and> products (snd r) = products db \<and> categories (snd r) = categories db
            \<and> filter mutating (calls (snd r)) = filter mutating (calls db))
       \<and> ((\<exists>c\<in>set (categories db). cat_id c = category_id product \<and> cat_is_active c) \<longrightarrow>
            (\<exists>row. products (snd r) = products db @ [row]
               \<and> categories (snd r) = categories db
               \<and> seller_id row = user_id u \<and> is_active row \<and> prod_id row = new_id
               \<and> name row = name product \<and> description row = description product
               \<and> price row = price product \<and> stock row = stock product
               \<and> category_id row = category_id product
               \<and> (new_id \<notin> prod_id ` set (products db) \<longrightarrow> fst r = Inr row)))"
proof (intro conjI impI)
  assume "\<not> (\<exists>c\<in>set (categories db). cat_id c = category_id product \<and> cat_is_active c)"
  then have "first (select_active_category (category_id product) db) = None"
    by (simp add: active_category_iff)
  then have "r = (Inl (HTTPException 400 ''Category not found''), issue [Scalars] db)"
    unfolding assms by (rule create_product_no_category)
  then show "fst r = Inl (HTTPException 400 ''Category not found'')"
    and "products (snd r) = products db" and "categories (snd r) = categories db"
    and "filter mutating (calls (snd r)) = filter mutating (calls db)"
    by simp_all
next
  let ?row = "ProductModel product (user_id u) new_id"
  assume "\<exists>c\<in>set (categories db). cat_id c = category_id product \<and> cat_is_active c"
  then have "first (select_active_category (category_id product) db) \<noteq> None"
    by (simp add: active_category_iff)
  then obtain c where c: "first (select_active_category (category_id product) db) = Some c"
    by blast
  have rows: "products (snd r) = products db @ [?row]"
    and cats: "categories (snd r) = categories db"
    by (simp_all add: assms create_product_added [OF c])
  have ret: "new_id \<notin> prod_id ` set (products db) \<longrightarrow> fst r = Inr ?row"
  proof
    assume "new_id \<notin> prod_id ` set (products db)"
    then have "\<forall>x\<in>set (products db). \<not> prod_id x = prod_id ?row"
      by auto
    then have "first (filter (\<lambda>q. prod_id q = prod_id ?row) (products db @ [?row])) = Some ?row"
      by (rule first_filter_append_fresh) simp
    then show "fst r = Inr ?row"
      by (simp add: assms create_product_returns [OF c] refresh_def)
  qed
  show "\<exists>row. products (snd r) = products db @ [row]
               \<and> categories (snd r) = categories db
               \<and> seller_id row = user_id u \<and> is_active row \<and> prod_id row = new_id
               \<and> name row = name product \<and> description row = description product
               \<and> price row = price product \<and> stock row = stock product
               \<and> category_id row = category_id product
               \<and> (new_id \<notin> prod_id ` set (products db) \<longrightarrow> fst r = Inr row)"
    by (rule exI [of _ ?row]) (simp add: rows cats ret)
qed

theorem create_product_outcome_witness:
  "fst (create_product yoyo 5 seller7 shop) = Inl (HTTPException 400 ''Category not found'')
   \<and> products (snd (create_product yoyo 5 seller7 shop)) = products shop
   \<and> (\<exists>row. products (snd (create_product pencil 5 seller7 shop)) = products shop @ [row]
         \<and> seller_id row = 7 \<and> is_active row
         \<and> fst (create_product pencil 5 seller7 shop) = Inr row)"
proof -
  have none: "\<not> (\<exists>c\<in>set (categories shop). cat_id c = category_id yoyo \<and> cat_is_active c)"
    by (simp add: store_defs)
  have some: "\<exists>c\<in>set (categories shop). cat_id c = category_id pencil \<and> cat_is_active c"
    by (simp add: store_defs)
  have fresh: "5 \<notin> prod_id ` set (products shop)"
    by (simp add: store_defs)
  have u: "user_id seller7 = 7" by (simp add: seller7_def)
  from create_product_outcome [of "create_product yoyo 5 seller7 shop" yoyo 5 seller7 shop] none
  have a: "fst (create_product yoyo 5 seller7 shop) = Inl (HTTPException 400 ''Category not found'')
      \<and> products (snd (create_product yoyo 5 seller7 shop)) = products shop"
    by blast
  from create_product_outcome [of "create_product pencil 5 seller7 shop" pencil 5 seller7 shop]
    some fresh u
  have b: "\<exists>row. products (snd (create_product pencil 5 seller7 shop)) = products shop @ [row]
         \<and> seller_id row = 7 \<and> is_active row
         \<and> fst (create_product pencil 5 seller7 shop) = Inr row"
    by auto
  from a b show ?thesis by blast
qed

subsection \<open>Listing: the page and the count\<close>

lemma where_all_issue [simp]: "where_all fs (products (issue cs db)) = where_all fs (products db)"
  by simp

lemma filters_None:
  "\<exists>fs. filters c None mx st s = Inr fs \<and> (\<forall>p. list_all (\<lambda>f. f p) fs \<longleftrightarrow> spec_filter c None mx st s p)"
  by (cases c; cases mx; cases st; cases s) (simp_all add: filters_def spec_filter_def)

lemma filters_Some_None: "filters None (Some lo) mx st s = Inl ArgumentError"
  by (simp add: filters_def)

lemma filters_Some_Some:
  "\<exists>fs. filters (Some cid) (Some lo) mx st s = Inr fs
     \<and> (\<forall>p. list_all (\<lambda>f. f p) fs \<longleftrightarrow> spec_filter (Some cid) (Some (of_int cid)) mx st s p)"
  by (cases mx; cases st; cases s) (auto simp add: filters_def spec_filter_def)

lemma filters_active:
  assumes "filters c mn mx st s = Inr fs" and "list_all (\<lambda>f. f p) fs"
  shows "is_active p"
proof (cases "min_price_clause mn c")
  case (Inl e)
  with assms(1) show ?thesis by (simp add: filters_def)
next
  case (Inr cl)
  with assms(1) obtain rest where "fs = (\<lambda>p. is_active p = True) # rest"
    by (auto simp: filters_def)
  with assms(2) show ?thesis by simp
qed

lemma get_all_products_result:
  assumes "fst (get_all_products page' page_size' c mn mx st s db) = Inr r"
  shows "\<exists>fs. filters c mn mx st s = Inr fs
     \<and> r = \<lparr>items = take (nat page_size') (drop (nat ((page' - 1) * page_size'))
                        (sort_key prod_id (where_all fs (products db)))),
            total = int (length (where_all fs (products db))),
            page = page', page_size = page_size'\<rparr>"
proof (cases "case (mn, mx) of (Some lo, Some hi) \<Rightarrow> lo > hi | _ \<Rightarrow> False")
  case True
  with assms show ?thesis by (simp add: get_all_products_def)
next
  case False
  show ?thesis
  proof (cases "filters c mn mx st s")
    case (Inl e)
    with False assms show ?thesis by (simp add: get_all_products_def)
  next
    case (Inr fs)
    with False assms show ?thesis by (simp add: get_all_products_def Let_def)
  qed
qed

lemma sorted_page:
  "sorted (map f (take n (drop m (sort_key f xs))))"
proof -
  have "sorted (take n (drop m (map f (sort_key f xs))))"
    by (intro sorted_wrt_take sorted_wrt_drop sorted_sort_key)
  then show ?thesis by (simp only: take_map drop_map)
qed

lemma page_subset: "set (take n (drop m (sort_key f xs))) \<subseteq> set xs"
proof -
  have "set (take n (drop m (sort_key f xs))) \<subseteq> set (drop m (sort_key f xs))"
    by (rule set_take_subset)
  also have "\<dots> \<subseteq> set (sort_key f xs)" by (rule set_drop_subset)
  finally show ?thesis by simp
qed

text \<open>
  What does hold of every page the handler returns, with the clauses as the handler builds
  them: at most \<^verbatim>\<open>page_size\<close> items, in ascending order of id, all of them active
  rows of the table.
\<close>

lemma get_all_products_page:
  assumes "fst (get_all_products page' page_size' c mn mx st s db) = Inr r"
  shows "length (items r) \<le> nat page_size'"
    and "sorted (map prod_id (items r))"
    and "list_all is_active (items r)"
    and "set (items r) \<subseteq> set (products db)"
proof -
  from get_all_products_result [OF assms] obtain fs where
    fs: "filters c mn mx st s = Inr fs"
    and it: "items r = take (nat page_size') (drop (nat ((page' - 1) * page_size'))
                        (sort_key prod_id (where_all fs (products db))))"
    by auto
  show "length (items r) \<le> nat page_size'" by (simp add: it)
  show "sorted (map prod_id (items r))" unfolding it by (rule sorted_page)
  have sub: "set (items r) \<subseteq> set (where_all fs (products db))"
    unfolding it by (rule page_subset)
  then show "set (items r) \<subseteq> set (products db)"
    by (auto simp: where_all_def)
  have "\<And>p. p \<in> set (items r) \<Longrightarrow> is_active p"
  proof -
    fix p assume "p \<in> set (items r)"
    with sub have "list_all (\<lambda>f. f p) fs" by (auto simp: where_all_def)
    with fs show "is_active p" by (rule filters_active)
  qed
  then show "list_all is_active (items r)" by (simp add: list_all_iff)
qed

text \<open>The count does not depend on the pagination window.\<close>

lemma get_all_products_total_window:
  assumes "fst (get_all_products page1 size1 c mn mx st s db) = Inr r1"
    and "fst (get_all_products page2 size2 c mn mx st s db) = Inr r2"
  shows "total r1 = total r2"
  using get_all_products_result [OF assms(1)] get_all_products_result [OF assms(2)]
  by auto

text \<open>
  Without \<^verbatim>\<open>min_price\<close> the count is the number of rows that satisfy the filter of the
  specification; with \<^verbatim>\<open>min_price\<close> and \<^verbatim>\<open>category_id\<close> both supplied it is the
  number of rows that satisfy that filter with the category's id in the place of the
  lower bound.
\<close>

lemma where_all_cong:
  assumes "\<forall>p. list_all (\<lambda>f. f p) fs \<longleftrightarrow> P p"
  shows "where_all fs rows = filter P rows"
  using assms by (simp add: where_all_def)

lemma get_all_products_total_no_min:
  assumes "fst (get_all_products page' page_size' c None mx st s db) = Inr r"
  shows "total r = int (length (filter (spec_filter c None mx st s) (products db)))"
proof -
  from filters_None [of c mx st s] obtain fs where
    fs: "filters c None mx st s = Inr fs"
    and eq: "\<forall>p. list_all (\<lambda>f. f p) fs \<longleftrightarrow> spec_filter c None mx st s p"
    by blast
  from get_all_products_result [OF assms] fs
  have "total r = int (length (where_all fs (products db)))" by auto
  then show ?thesis by (simp only: where_all_cong [OF eq])
qed

lemma get_all_products_total_min:
  assumes "fst (get_all_products page' page_size' (Some cid) (Some lo) mx st s db) = Inr r"
  shows "total r =
     int (length (filter (spec_filter (Some cid) (Some (of_int cid)) mx st s) (products db)))"
proof -
  from filters_Some_Some [of cid lo mx st s] obtain fs where
    fs: "filters (Some cid) (Some lo) mx st s = Inr fs"
    and eq: "\<forall>p. list_all (\<lambda>f. f p) fs \<longleftrightarrow> spec_filter (Some cid) (Some (of_int cid)) mx st s p"
    by blast
  from get_all_products_result [OF assms] fs
  have "total r = int (length (where_all fs (products db)))" by auto
  then show ?thesis by (simp only: where_all_cong [OF eq])
qed

lemma get_all_products_min_without_category:
  assumes "\<not> (case mx of Some hi \<Rightarrow> lo > hi | None \<Rightarrow> False)"
  shows "get_all_products page' page_size' None (Some lo) mx st s db = (Inl ArgumentError, db)"
  using assms by (cases mx) (simp_all add: get_all_products_def filters_Some_None)

subsection \<open>Listing: defaults and bounds of the query parameters\<close>

lemma Query_default [simp]: "Query dflt ge le None = Inr dflt"
  by (simp add: Query_def)

lemma Query_below:
  "v < g \<Longrightarrow> Query dflt (Some g) le (Some v) = Inl RequestValidationError"
  by (simp add: Query_def)

lemma Query_above:
  "l < v \<Longrightarrow> Query dflt ge (Some l) (Some v) = Inl RequestValidationError"
  by (simp add: Query_def)

lemma Query_page_cases:
  "Query 1 (Some 1) None raw = Inl RequestValidationError \<or> (\<exists>v. Query 1 (Some 1) None raw = Inr v)"
  by (cases raw) (simp_all add: Query_def)

lemma filters_no_filter:
  "filters None None None None None = Inr [\<lambda>p. is_active p = True]"
  by (simp add: filters_def)

lemma where_all_active: "where_all [is_active] rows = filter is_active rows"
  by (simp add: where_all_def)

text \<open>
  Claim C10. A request that omits \<^verbatim>\<open>page\<close> and \<^verbatim>\<open>page_size\<close> is served as
  page 1 with page size 20; a request with no parameter at all returns the first 20 active
  products in ascending order of id, with the count of all active products; a
  \<^verbatim>\<open>page\<close> below 1, or a \<^verbatim>\<open>page_size\<close> below 1 or above 100, is refused with a
  validation error and the handler is not run: the session is as before.
\<close>

theorem list_defaults_and_bounds:
  "get_products_route None None c raw_min raw_max st s db
     = get_products_route (Some 1) (Some 20) c raw_min raw_max st s db
   \<and> get_products_route None None None None None None None db
     = (Inr \<lparr>items = take 20 (sort_key prod_id (filter is_active (products db))),
             total = int (length (filter is_active (products db))),
             page = 1, page_size = 20\<rparr>,
        issue [Scalar, Scalars] db)
   \<and> (\<forall>v. v < 1 \<longrightarrow>
         get_products_route (Some v) raw_page_size c raw_min raw_max st s db
           = (Inl RequestValidationError, db))
   \<and> (\<forall>v. v < 1 \<or> 100 < v \<longrightarrow>
         get_products_route raw_page (Some v) c raw_min raw_max st s db
           = (Inl RequestValidationError, db))"
proof (intro conjI allI impI)
  show "get_products_route None None c raw_min raw_max st s db
     = get_products_route (Some 1) (Some 20) c raw_min raw_max st s db"
    by (simp add: get_products_route_def Query_def)
next
  show "get_products_route None None None None None None None db
     = (Inr \<lparr>items = take 20 (sort_key prod_id (filter is_active (products db))),
             total = int (length (filter is_active (products db))),
             page = 1, page_size = 20\<rparr>,
        issue [Scalar, Scalars] db)"
    by (simp add: get_products_route_def Query_price_def get_all_products_def
        filters_no_filter where_all_active issue_def)
next
  fix v :: int
  assume "v < 1"
  then have "Query 1 (Some 1) None (Some v) = Inl RequestValidationError"
    by (rule Query_below)
  then show "get_products_route (Some v) raw_page_size c raw_min raw_max st s db
           = (Inl RequestValidationError, db)"
    by (simp add: get_products_route_def)
next
  fix v :: int
  assume "v < 1 \<or> 100 < v"
  then have bad: "Query 20 (Some 1) (Some 100) (Some v) = Inl RequestValidationError"
    using Query_below [of v 1 20 "Some 100"] Query_above [of 100 v 20 "Some 1"] by blast
  from Query_page_cases [of raw_page]
  show "get_products_route raw_page (Some v) c raw_min raw_max st s db
           = (Inl RequestValidationError, db)"
  proof
    assume "Query 1 (Some 1) None raw_page = Inl RequestValidationError"
    then show ?thesis by (simp add: get_products_route_def)
  next
    assume "\<exists>w. Query 1 (Some 1) None raw_page = Inr w"
    then obtain w where "Query 1 (Some 1) None raw_page = Inr w" by blast
    with bad show ?thesis by (simp add: get_products_route_def)
  qed
qed

theorem list_defaults_and_bounds_witness:
  "fst (get_products_route None None None None None None None shop)
     = Inr \<lparr>items = [pen, atlas], total = 2, page = 1, page_size = 20\<rparr>
   \<and> get_products_route (Some 0) None None None None None None shop
     = (Inl RequestValidationError, shop)
   \<and> get_products_route None (Some 0) None None None None None shop
     = (Inl RequestValidationError, shop)
   \<and> get_products_route None (Some 101) None None None None None shop
     = (Inl RequestValidationError, shop)"
proof -
  note t = list_defaults_and_bounds [of None None None None None shop]
  have n: "filter is_active (products shop) = [pen, atlas]"
    by (simp add: shop_def pen_def atlas_def robot_def)
  have sorted_rows: "sort_key prod_id [pen, atlas] = [pen, atlas]"
    by (simp add: pen_def atlas_def)
  have tk: "take 20 [pen, atlas] = [pen, atlas]"
    by simp
  have len: "int (length [pen, atlas]) = 2"
    by simp
  from t [THEN conjunct2, THEN conjunct1]
  have "fst (get_products_route None None None None None None None shop)
     = Inr \<lparr>items = take 20 (sort_key prod_id (filter is_active (products shop))),
             total = int (length (filter is_active (products shop))),
             page = 1, page_size = 20\<rparr>"
    by (simp only: fst_conv)
  then have a: "fst (get_products_route None None None None None None None shop)
     = Inr \<lparr>items = [pen, atlas], total = 2, page = 1, page_size = 20\<rparr>"
    by (simp only: n sorted_rows tk len)
  from list_defaults_and_bounds [of None None None None None shop None None,
      THEN conjunct2, THEN conjunct2]
  have b: "get_products_route (Some 0) None None None None None None shop
     = (Inl RequestValidationError, shop)"
    by simp
  from list_defaults_and_bounds [of None None None None None shop None None,
      THEN conjunct2, THEN conjunct2]
  have c: "get_products_route None (Some 0) None None None None None shop
     = (Inl RequestValidationError, shop)"
    and d: "get_products_route None (Some 101) None None None None None shop
     = (Inl RequestValidationError, shop)"
    by simp_all
  from a b c d show ?thesis by blast
qed

subsection \<open>Listing: the lower price bound\<close>

text \<open>
  Claim C1 (every returned product has a price of at least \<^verbatim>\<open>min_price\<close>) does not hold
  of the handler: the clause it builds compares the price with \<^verbatim>\<open>category_id\<close>. With
  \<^verbatim>\<open>category_id = 1\<close> and \<^verbatim>\<open>min_price = 10\<close> the page holds the pen, whose price
  is 5.
\<close>

theorem min_price_compares_category_id:
  "fst (get_all_products 1 20 (Some 1) (Some 10) None None None shop)
     = Inr \<lparr>items = [pen, atlas], total = 2, page = 1, page_size = 20\<rparr>
   \<and> price pen = 5 \<and> price pen < 10"
proof -
  have fs: "filters (Some 1) (Some 10) None None None
      = Inr [is_active, \<lambda>p. category_id p = 1, \<lambda>p. 1 \<le> price p]"
    by (simp add: filters_def)
  have rows: "where_all [is_active, \<lambda>p. category_id p = 1, \<lambda>p. 1 \<le> price p]
      (products shop) = [pen, atlas]"
    by (simp add: where_all_def shop_def pen_def atlas_def robot_def)
  have sorted_rows: "sort_key prod_id [pen, atlas] = [pen, atlas]"
    by (simp add: pen_def atlas_def)
  have "fst (get_all_products 1 20 (Some 1) (Some 10) None None None shop)
     = Inr \<lparr>items = [pen, atlas], total = 2, page = 1, page_size = 20\<rparr>"
    by (simp add: get_all_products_def fs rows sorted_rows Let_def del: sort_key_simps)
  moreover have "price pen = 5" by (simp add: pen_def)
  ultimately show ?thesis by simp
qed

text \<open>
  Claim C3 (the total is the number of active products that satisfy all supplied filters)
  fails for the same reason. With \<^verbatim>\<open>category_id = 1\<close> and \<^verbatim>\<open>min_price = 10\<close>, the
  second page of size 1 reports a total of 2, while one product of the store (the atlas)
  satisfies the filter of the specification.
\<close>

theorem total_counts_category_id_bound:
  "fst (get_all_products 2 1 (Some 1) (Some 10) None None None shop)
     = Inr \<lparr>items = [atlas], total = 2, page = 2, page_size = 1\<rparr>
   \<and> filter (spec_filter (Some 1) (Some 10) None None None) (products shop) = [atlas]"
proof -
  have fs: "filters (Some 1) (Some 10) None None None
      = Inr [is_active, \<lambda>p. category_id p = 1, \<lambda>p. 1 \<le> price p]"
    by (simp add: filters_def)
  have rows: "where_all [is_active, \<lambda>p. category_id p = 1, \<lambda>p. 1 \<le> price p]
      (products shop) = [pen, atlas]"
    by (simp add: where_all_def shop_def pen_def atlas_def robot_def)
  have sorted_rows: "sort_key prod_id [pen, atlas] = [pen, atlas]"
    by (simp add: pen_def atlas_def)
  have "fst (get_all_products 2 1 (Some 1) (Some 10) None None None shop)
     = Inr \<lparr>items = [atlas], total = 2, page = 2, page_size = 1\<rparr>"
    by (simp add: get_all_products_def fs rows sorted_rows Let_def del: sort_key_simps)
  moreover have "filter (spec_filter (Some 1) (Some 10) None None None) (products shop) = [atlas]"
    by (simp add: spec_filter_def shop_def pen_def atlas_def robot_def)
  ultimately show ?thesis by simp
qed

subsection \<open>The invariant: an active product references an active category\<close>

lemma active_in_active_iff:
  "active_in_active db \<longleftrightarrow>
     (\<forall>p\<in>set (products db). is_active p \<longrightarrow>
        (\<exists>c\<in>set (categories db). cat_id c = category_id p \<and> cat_is_active c))"
  by (auto simp: active_in_active_def has_active_category_def list_all_iff list_ex_iff)

lemma active_in_active_issue [simp]: "active_in_active (issue cs db) = active_in_active db"
  by (simp add: active_in_active_iff)

text \<open>Creation preserves the invariant: the category of the new row was found active.\<close>

lemma create_product_preserves_invariant:
  assumes "active_in_active db"
  shows "active_in_active (snd (create_product product new_id u db))"
proof (cases "first (select_active_category (category_id product) db)")
  case None
  then show ?thesis using assms by (simp add: create_product_no_category)
next
  case (Some c)
  then have "\<exists>c\<in>set (categories db). cat_id c = category_id product \<and> cat_is_active c"
    using active_category_iff [of "category_id product" db] by simp
  with assms show ?thesis
    by (auto simp: create_product_added [OF Some] active_in_active_iff)
qed

text \<open>Soft deletion preserves the invariant: it only clears the flag.\<close>

lemma delete_product_preserves_invariant:
  assumes "active_in_active db"
  shows "active_in_active (snd (delete_product product_id u db))"
proof (cases "first (select_active_product product_id db)")
  case None
  then show ?thesis using assms by (simp add: delete_product_no_product)
next
  case (Some p)
  show ?thesis
  proof (cases "seller_id p = user_id u")
    case False
    with Some assms show ?thesis by (simp add: delete_product_not_owner)
  next
    case True
    have "\<And>q. q \<in> set (products db) \<Longrightarrow>
        is_active (if prod_id q = product_id then q\<lparr>is_active := False\<rparr> else q) \<Longrightarrow>
        \<exists>c\<in>set (categories db).
          cat_id c = category_id (if prod_id q = product_id then q\<lparr>is_active := False\<rparr> else q)
          \<and> cat_is_active c"
    proof -
      fix q
      assume q: "q \<in> set (products db)"
        and act: "is_active (if prod_id q = product_id then q\<lparr>is_active := False\<rparr> else q)"
      then have "prod_id q \<noteq> product_id" by (cases "prod_id q = product_id") simp_all
      with act q assms show "\<exists>c\<in>set (categories db).
          cat_id c = category_id (if prod_id q = product_id then q\<lparr>is_active := False\<rparr> else q)
          \<and> cat_is_active c"
        by (simp add: active_in_active_iff)
    qed
    note each = this
    let ?g = "\<lambda>row. if prod_id row = product_id then row\<lparr>is_active := False\<rparr> else row"
    have rows: "products (snd (delete_product product_id u db)) = map ?g (products db)"
      and cats: "categories (snd (delete_product product_id u db)) = categories db"
      by (simp_all add: delete_product_applied [OF Some True])
    show ?thesis
      unfolding active_in_active_iff rows cats
    proof (intro ballI impI)
      fix q'
      assume "q' \<in> set (map ?g (products db))" and act: "is_active q'"
      then obtain q where q: "q \<in> set (products db)" and q': "q' = ?g q"
        by (auto simp only: set_map)
      from each [OF q] act show "\<exists>c\<in>set (categories db). cat_id c = category_id q' \<and> cat_is_active c"
        unfolding q' by blast
    qed
  qed
qed

text \<open>
  Under the invariant the category check of \<^verbatim>\<open>update_product\<close> cannot fail: it looks up
  the category of the stored row, which the invariant already makes active. The category
  named by the payload is not looked up.
\<close>

lemma update_product_category_check_idle:
  assumes "active_in_active db"
  shows "fst (update_product product_id body u db)
           \<noteq> Inl (HTTPException 400 ''Category not found or inactive'')"
proof (cases "first (select_active_product product_id db)")
  case None
  then show ?thesis by (simp add: update_product_no_product)
next
  case (Some p)
  show ?thesis
  proof (cases "seller_id p = user_id u")
    case False
    with Some show ?thesis by (simp add: update_product_not_owner)
  next
    case True
    from select_active_product_sound [OF Some] assms
    have "\<exists>c\<in>set (categories db). cat_id c = category_id p \<and> cat_is_active c"
      by (simp add: active_in_active_iff)
    then have "first (select_active_category (category_id p) db) \<noteq> None"
      by (simp add: active_category_iff)
    then obtain c where "first (select_active_category (category_id p) db) = Some c"
      by blast
    from update_product_applied [OF Some True this]
    obtain row where "fst (update_product product_id body u db) = Inr row"
      by blast
    then show ?thesis by simp
  qed
qed

text \<open>
  Claim C2 (every operation preserves the invariant) does not hold of
  \<^verbatim>\<open>update_product\<close>. The store \<open>shop\<close> satisfies the invariant; its owner updates
  the pen with a payload that names the inactive category 2; the call succeeds, and the
  active pen now references the inactive category.
\<close>

theorem update_product_breaks_invariant:
  "active_in_active shop
   \<and> fst (update_product 1 yoyo seller7 shop)
       = Inr \<lparr>name = ''Yoyo'', description = ''Wooden'', price = 4, stock = 6, category_id = 2,
              prod_id = 1, seller_id = 7, is_active = True\<rparr>
   \<and> \<not> active_in_active (snd (update_product 1 yoyo seller7 shop))"
proof -
  have inv: "active_in_active shop"
    by (simp add: active_in_active_def has_active_category_def store_defs)
  have run: "update_product 1 yoyo seller7 shop =
      (Inr \<lparr>name = ''Yoyo'', description = ''Wooden'', price = 4, stock = 6, category_id = 2,
              prod_id = 1, seller_id = 7, is_active = True\<rparr>,
       \<lparr>products = [\<lparr>name = ''Yoyo'', description = ''Wooden'', price = 4, stock = 6,
                      category_id = 2, prod_id = 1, seller_id = 7, is_active = True\<rparr>,
                    atlas, robot],
        categories = [books, toys],
        calls = [Scalars, Scalars, Execute, Commit, Refresh]\<rparr>)"
    by (simp add: update_product_def select_active_product_def select_active_category_def
        refresh_def issue_def set_values_def store_defs)
  have broken: "\<not> active_in_active
       \<lparr>products = [\<lparr>name = ''Yoyo'', description = ''Wooden'', price = 4, stock = 6,
                      category_id = 2, prod_id = 1, seller_id = 7, is_active = True\<rparr>,
                    atlas, robot],
        categories = [books, toys],
        calls = [Scalars, Scalars, Execute, Commit, Refresh]\<rparr>"
    by (simp add: active_in_active_def has_active_category_def books_def toys_def)
  from inv run broken show ?thesis by simp
qed

end
